theory Spec2Isabelle
  imports Complex_Main
begin

section \<open>Values\<close>

text \<open>
  The program \<^verbatim>\<open>pdf.py\<close> computes with IEEE 754 binary64 numbers. A value of
  that format is a finite real, one of the two infinities, or not-a-number. Signed
  zeros are identified. How a finite result is rounded is left to the arithmetic of
  the environment (below); what the program itself decides (which values are replaced,
  what raises, which branch is returned) only depends on the four cases.
\<close>

datatype fl = Fin real | PInf | NInf | NaN

text \<open>Python exceptions that the program can let escape.\<close>

datatype error = KeyError | TypeError | ValueError | ZeroDivisionError | OverflowError | QuadpackError

text \<open>
  Python dispatches an arithmetic operator on the classes of its operands: between two
  built-in \<^verbatim>\<open>float\<close>s the operator is Python's own (a zero divisor raises), as soon as a
  \<^verbatim>\<open>numpy.float64\<close> or an array takes part it is numpy's (a zero divisor gives
  \<open>inf\<close> or \<open>nan\<close> and a warning). A scalar therefore carries its class.
\<close>

datatype num = PyFloat fl | NpFloat fl

fun val :: "num \<Rightarrow> fl" where
  "val (PyFloat v) = v"
| "val (NpFloat v) = v"

text \<open>
  A parameter value is a number or a box: an object that exposes the number in a field
  \<^verbatim>\<open>value\<close> (the \<^verbatim>\<open>Parameter\<close> objects of \<^verbatim>\<open>lmfit\<close>).
\<close>

datatype pval = Num num | Boxed fl

text \<open>An input, a model or a data set: a scalar or a one-dimensional float64 array.\<close>

datatype nd = Scalar num | Arr "fl list"

type_synonym params = "string \<rightharpoonup> pval"

text \<open>
  \<^verbatim>\<open>scipy.integrate.quad\<close> is a deterministic procedure that samples its integrand:
  it either asks for the integrand at a point and goes on with the answer, or stops
  with an estimate of the integral and an estimate of the error. Such a procedure is a
  well-founded tree, so a run always ends.
\<close>

datatype quadproc = Done fl fl | Ask fl "fl \<Rightarrow> quadproc"

section \<open>The environment: arithmetic and library functions\<close>

text \<open>
  The program calls numpy, scipy and \<^verbatim>\<open>math\<close>. None of them is part of the
  repository, so they are parameters of the model: the rounded arithmetic of binary64,
  the two power functions (Python's raises, numpy's does not), \<^verbatim>\<open>math.gamma\<close>
  (which raises on a pole and on overflow), the Bessel functions, the three densities
  of \<^verbatim>\<open>scipy.stats\<close> (point, shape, scale), the quadrature procedure for given
  bounds, and what a box yields when it is used as a number without being unwrapped
  (its own numeric protocol, or a \<^verbatim>\<open>TypeError\<close>).
\<close>

record env =
  fadd :: "fl \<Rightarrow> fl \<Rightarrow> fl"
  fsub :: "fl \<Rightarrow> fl \<Rightarrow> fl"
  fmul :: "fl \<Rightarrow> fl \<Rightarrow> fl"
  fdiv :: "fl \<Rightarrow> fl \<Rightarrow> fl"
  fsqrt :: "fl \<Rightarrow> fl"
  np_power :: "fl \<Rightarrow> fl \<Rightarrow> fl"
  float_pow :: "fl \<Rightarrow> fl \<Rightarrow> error + fl"
  math_gamma :: "fl \<Rightarrow> error + fl"
  jv :: "fl \<Rightarrow> fl \<Rightarrow> fl"
  kv :: "fl \<Rightarrow> fl \<Rightarrow> fl"
  stats_gamma_pdf :: "fl \<Rightarrow> fl \<Rightarrow> fl \<Rightarrow> fl"
  stats_rayleigh_pdf :: "fl \<Rightarrow> fl \<Rightarrow> fl"
  stats_rice_pdf :: "fl \<Rightarrow> fl \<Rightarrow> fl \<Rightarrow> fl"
  quad :: "fl \<Rightarrow> fl \<Rightarrow> quadproc"
  box_number :: "fl \<Rightarrow> error + num"

section \<open>Python and numpy operations\<close>

text \<open>Sequencing of computations that may raise: the first exception ends the run.\<close>

fun bindE :: "'e + 'a \<Rightarrow> ('a \<Rightarrow> 'e + 'b) \<Rightarrow> 'e + 'b" where
  "bindE (Inl e) f = Inl e"
| "bindE (Inr v) f = f v"

text \<open>A list comprehension whose body may raise.\<close>

fun mapE :: "('a \<Rightarrow> 'e + 'b) \<Rightarrow> 'a list \<Rightarrow> 'e + 'b list" where
  "mapE f [] = Inr []"
| "mapE f (x # xs) = bindE (f x) (\<lambda>y. bindE (mapE f xs) (\<lambda>ys. Inr (y # ys)))"

text \<open>\<^verbatim>\<open>params[key]\<close>: a missing key raises.\<close>

definition getitem :: "params \<Rightarrow> string \<Rightarrow> error + pval" where
  "getitem params key = (case params key of None \<Rightarrow> Inl KeyError | Some v \<Rightarrow> Inr v)"

text \<open>\<^verbatim>\<open>if hasattr(p, 'value'): p = p.value\<close>\<close>

fun unwrap :: "pval \<Rightarrow> num" where
  "unwrap (Boxed v) = PyFloat v"
| "unwrap (Num n) = n"

text \<open>
  A parameter that reaches an operator or a library call as it was looked up: a number
  is itself, a box answers through its own numeric protocol.
\<close>

fun as_number :: "env \<Rightarrow> pval \<Rightarrow> error + num" where
  "as_number E (Num n) = Inr n"
| "as_number E (Boxed v) = box_number E v"

text \<open>
  An operator between two scalars: Python's own between two Python floats (the result
  is a Python float), numpy's as soon as one of them is a \<^verbatim>\<open>numpy.float64\<close>. The
  sum, the difference and the product never raise; the quotient and the power of
  Python floats do.
\<close>

fun n_arith :: "(fl \<Rightarrow> fl \<Rightarrow> fl) \<Rightarrow> num \<Rightarrow> num \<Rightarrow> num" where
  "n_arith f (PyFloat a) (PyFloat b) = PyFloat (f a b)"
| "n_arith f (PyFloat a) (NpFloat b) = NpFloat (f a b)"
| "n_arith f (NpFloat a) b = NpFloat (f a (val b))"

fun n_raising :: "(fl \<Rightarrow> fl \<Rightarrow> error + fl) \<Rightarrow> (fl \<Rightarrow> fl \<Rightarrow> fl) \<Rightarrow> num \<Rightarrow> num \<Rightarrow> error + num" where
  "n_raising py np (PyFloat a) (PyFloat b) = bindE (py a b) (\<lambda>v. Inr (PyFloat v))"
| "n_raising py np (PyFloat a) (NpFloat b) = Inr (NpFloat (np a b))"
| "n_raising py np (NpFloat a) b = Inr (NpFloat (np a (val b)))"

text \<open>\<^verbatim>\<open>/\<close> between two Python floats: a zero divisor raises.\<close>

definition py_truediv :: "env \<Rightarrow> fl \<Rightarrow> fl \<Rightarrow> error + fl" where
  "py_truediv E a b = (if b = Fin 0 then Inl ZeroDivisionError else Inr (fdiv E a b))"

definition n_add :: "env \<Rightarrow> num \<Rightarrow> num \<Rightarrow> num" where
  "n_add E = n_arith (fadd E)"

definition n_sub :: "env \<Rightarrow> num \<Rightarrow> num \<Rightarrow> num" where
  "n_sub E = n_arith (fsub E)"

definition n_mul :: "env \<Rightarrow> num \<Rightarrow> num \<Rightarrow> num" where
  "n_mul E = n_arith (fmul E)"

definition n_truediv :: "env \<Rightarrow> num \<Rightarrow> num \<Rightarrow> error + num" where
  "n_truediv E = n_raising (py_truediv E) (fdiv E)"

definition n_pow :: "env \<Rightarrow> num \<Rightarrow> num \<Rightarrow> error + num" where
  "n_pow E = n_raising (float_pow E) (np_power E)"

text \<open>Unary minus only flips the sign: it is exact.\<close>

fun fneg :: "fl \<Rightarrow> fl" where
  "fneg (Fin r) = Fin (- r)"
| "fneg PInf = NInf"
| "fneg NInf = PInf"
| "fneg NaN = NaN"

fun n_neg :: "num \<Rightarrow> num" where
  "n_neg (PyFloat v) = PyFloat (fneg v)"
| "n_neg (NpFloat v) = NpFloat (fneg v)"

text \<open>\<^verbatim>\<open>np.sqrt\<close> and \<^verbatim>\<open>jv\<close> of scalars return a \<^verbatim>\<open>numpy.float64\<close>.\<close>

definition n_sqrt :: "env \<Rightarrow> num \<Rightarrow> num" where
  "n_sqrt E z = NpFloat (fsqrt E (val z))"

definition n_jv :: "env \<Rightarrow> num \<Rightarrow> num \<Rightarrow> num" where
  "n_jv E order z = NpFloat (jv E (val order) (val z))"

text \<open>\<^verbatim>\<open>math.gamma\<close> converts its argument to a float and returns a Python float.\<close>

definition py_math_gamma :: "env \<Rightarrow> num \<Rightarrow> error + num" where
  "py_math_gamma E n = bindE (math_gamma E (val n)) (\<lambda>g. Inr (PyFloat g))"

text \<open>
  With an array numpy broadcasts, here for one dimension: a scalar or an array of
  length one is stretched, other lengths have to agree.
\<close>

fun broadcast :: "(fl \<Rightarrow> fl \<Rightarrow> fl) \<Rightarrow> fl list \<Rightarrow> fl list \<Rightarrow> error + nd" where
  "broadcast f as bs =
     (if length as = length bs then Inr (Arr (map2 f as bs))
      else if length as = 1 then Inr (Arr (map (f (hd as)) bs))
      else if length bs = 1 then Inr (Arr (map (\<lambda>a. f a (hd bs)) as))
      else Inl ValueError)"

text \<open>A numpy function of two arguments, such as \<^verbatim>\<open>kv\<close>.\<close>

fun ufunc2 :: "(fl \<Rightarrow> fl \<Rightarrow> fl) \<Rightarrow> nd \<Rightarrow> nd \<Rightarrow> error + nd" where
  "ufunc2 f (Scalar a) (Scalar b) = Inr (Scalar (NpFloat (f (val a) (val b))))"
| "ufunc2 f (Scalar a) (Arr bs) = Inr (Arr (map (f (val a)) bs))"
| "ufunc2 f (Arr as) (Scalar b) = Inr (Arr (map (\<lambda>a. f a (val b)) as))"
| "ufunc2 f (Arr as) (Arr bs) = broadcast f as bs"

text \<open>A binary operator where an operand may be an array.\<close>

fun binop :: "(fl \<Rightarrow> fl \<Rightarrow> error + fl) \<Rightarrow> (fl \<Rightarrow> fl \<Rightarrow> fl) \<Rightarrow> nd \<Rightarrow> nd \<Rightarrow> error + nd" where
  "binop py np (Scalar a) (Scalar b) = bindE (n_raising py np a b) (\<lambda>n. Inr (Scalar n))"
| "binop py np (Scalar a) (Arr bs) = Inr (Arr (map (np (val a)) bs))"
| "binop py np (Arr as) (Scalar b) = Inr (Arr (map (\<lambda>a. np a (val b)) as))"
| "binop py np (Arr as) (Arr bs) = broadcast np as bs"

definition v_sub :: "env \<Rightarrow> nd \<Rightarrow> nd \<Rightarrow> error + nd" where
  "v_sub E = binop (\<lambda>a b. Inr (fsub E a b)) (fsub E)"

definition v_mul :: "env \<Rightarrow> nd \<Rightarrow> nd \<Rightarrow> error + nd" where
  "v_mul E = binop (\<lambda>a b. Inr (fmul E a b)) (fmul E)"

definition v_truediv :: "env \<Rightarrow> nd \<Rightarrow> nd \<Rightarrow> error + nd" where
  "v_truediv E = binop (py_truediv E) (fdiv E)"

definition v_pow :: "env \<Rightarrow> nd \<Rightarrow> nd \<Rightarrow> error + nd" where
  "v_pow E = binop (float_pow E) (np_power E)"

text \<open>A numpy function of one argument: \<^verbatim>\<open>np.sqrt\<close>, a density at given parameters.\<close>

fun ufunc1 :: "(fl \<Rightarrow> fl) \<Rightarrow> nd \<Rightarrow> nd" where
  "ufunc1 f (Scalar a) = Scalar (NpFloat (f (val a)))"
| "ufunc1 f (Arr as) = Arr (map f as)"

text \<open>
  \<^verbatim>\<open>np.nan_to_num\<close> with its default arguments: not-a-number becomes zero, an
  infinity becomes the finite float64 of largest magnitude and the same sign.
\<close>

definition DBL_MAX :: real where
  "DBL_MAX = (2 ^ 53 - 1) * 2 ^ 971"

fun nan_to_num1 :: "fl \<Rightarrow> fl" where
  "nan_to_num1 NaN = Fin 0"
| "nan_to_num1 PInf = Fin DBL_MAX"
| "nan_to_num1 NInf = Fin (- DBL_MAX)"
| "nan_to_num1 (Fin r) = Fin r"

definition nan_to_num :: "nd \<Rightarrow> nd" where
  "nan_to_num = ufunc1 nan_to_num1"

text \<open>The literals of the source.\<close>

definition lit :: "real \<Rightarrow> nd" where
  "lit r = Scalar (PyFloat (Fin r))"

section \<open>The evaluators\<close>

text \<open>\<^verbatim>\<open>def gamma(params, x, data=None, eps=None)\<close>\<close>

definition gamma :: "env \<Rightarrow> params \<Rightarrow> nd \<Rightarrow> nd option \<Rightarrow> nd option \<Rightarrow> error + nd" where
  "gamma E params x data eps =
     bindE (getitem params ''mu'') (\<lambda>mu.
     let mu = unwrap mu;
         model = ufunc1 (\<lambda>v. stats_gamma_pdf E v (val mu) (Fin 1)) x;
         model = nan_to_num model
     in case data of None \<Rightarrow> Inr model
        | Some d \<Rightarrow>
            (case eps of None \<Rightarrow> v_sub E model d
             | Some e \<Rightarrow> bindE (v_sub E model d) (\<lambda>r. v_truediv E r e)))"

text \<open>\<^verbatim>\<open>def rayleigh(params, x, data=None, eps=None)\<close>\<close>

definition rayleigh :: "env \<Rightarrow> params \<Rightarrow> nd \<Rightarrow> nd option \<Rightarrow> nd option \<Rightarrow> error + nd" where
  "rayleigh E params x data eps =
     bindE (getitem params ''s'') (\<lambda>s.
     bindE (as_number E s) (\<lambda>s.
     let model = ufunc1 (\<lambda>v. stats_rayleigh_pdf E v (val s)) x;
         model = nan_to_num model
     in case data of None \<Rightarrow> Inr model
        | Some d \<Rightarrow>
            (case eps of None \<Rightarrow> v_sub E model d
             | Some e \<Rightarrow> bindE (v_sub E model d) (\<lambda>r. v_truediv E r e))))"

text \<open>\<^verbatim>\<open>def rice(params, x, data=None, eps=None)\<close>: the shape is \<^verbatim>\<open>a/s\<close>.\<close>

definition rice :: "env \<Rightarrow> params \<Rightarrow> nd \<Rightarrow> nd option \<Rightarrow> nd option \<Rightarrow> error + nd" where
  "rice E params x data eps =
     bindE (getitem params ''a'') (\<lambda>a.
     bindE (getitem params ''s'') (\<lambda>s.
     bindE (as_number E a) (\<lambda>a.
     bindE (as_number E s) (\<lambda>s.
     bindE (n_truediv E a s) (\<lambda>b.
     let model = ufunc1 (\<lambda>v. stats_rice_pdf E v (val b) (val s)) x;
         model = nan_to_num model
     in case data of None \<Rightarrow> Inr model
        | Some d \<Rightarrow>
            (case eps of None \<Rightarrow> v_sub E model d
             | Some e \<Rightarrow> bindE (v_sub E model d) (\<lambda>r. v_truediv E r e)))))))"

text \<open>
  \<^verbatim>\<open>def k(params, x, data=None, eps=None)\<close>, with
  \<^verbatim>\<open>b = np.sqrt(2*mu)/s\<close> and
  \<^verbatim>\<open>model = 2*(x/2.)**mu *b**(mu+1.) /math.gamma(mu) *kv(mu-1,b*x)\<close>,
  evaluated in Python's order: powers first, then the products and the quotient from
  left to right.
\<close>

definition k :: "env \<Rightarrow> params \<Rightarrow> nd \<Rightarrow> nd option \<Rightarrow> nd option \<Rightarrow> error + nd" where
  "k E params x data eps =
     bindE (getitem params ''s'') (\<lambda>s.
     bindE (getitem params ''mu'') (\<lambda>mu.
     bindE (as_number E mu) (\<lambda>mu.
     bindE (as_number E s) (\<lambda>s.
     bindE (n_truediv E (n_sqrt E (n_mul E (PyFloat (Fin 2)) mu)) s) (\<lambda>b.
     bindE (v_truediv E x (lit 2)) (\<lambda>h.
     bindE (v_pow E h (Scalar mu)) (\<lambda>p.
     bindE (v_mul E (lit 2) p) (\<lambda>m1.
     bindE (n_pow E b (n_add E mu (PyFloat (Fin 1)))) (\<lambda>p2.
     bindE (v_mul E m1 (Scalar p2)) (\<lambda>m2.
     bindE (py_math_gamma E mu) (\<lambda>g.
     bindE (v_truediv E m2 (Scalar g)) (\<lambda>m3.
     bindE (v_mul E (Scalar b) x) (\<lambda>z.
     bindE (ufunc2 (kv E) (Scalar (n_sub E mu (PyFloat (Fin 1)))) z) (\<lambda>kk.
     bindE (v_mul E m3 kk) (\<lambda>model.
     let model = nan_to_num model
     in case data of None \<Rightarrow> Inr model
        | Some d \<Rightarrow>
            (case eps of None \<Rightarrow> v_sub E model d
             | Some e \<Rightarrow> bindE (v_sub E model d) (\<lambda>r. v_truediv E r e)))))))))))))))))"

text \<open>
  The result of the integrand as \<^verbatim>\<open>quad\<close> reads it: a float, or an array of one
  element; \<^verbatim>\<open>None\<close> and longer arrays are refused.
\<close>

fun to_double :: "nd option \<Rightarrow> error + fl" where
  "to_double None = Inl QuadpackError"
| "to_double (Some (Scalar n)) = Inr (val n)"
| "to_double (Some (Arr vs)) = (case vs of [v] \<Rightarrow> Inr v | _ \<Rightarrow> Inl QuadpackError)"

text \<open>
  A run of the quadrature on an integrand: an exception of the integrand ends it. The
  sample point reaches the integrand as a Python float.
\<close>

primrec run_quad :: "quadproc \<Rightarrow> (num \<Rightarrow> error + nd option) \<Rightarrow> error + fl \<times> fl" where
  "run_quad (Done r err) f = Inr (r, err)"
| "run_quad (Ask w g) f =
     bindE (f (PyFloat w)) (\<lambda>y.
     bindE (to_double y) (\<lambda>v. run_quad (g v) f))"

text \<open>
  \<^verbatim>\<open>np.array([x]).flatten(0)\<close>: a scalar becomes an array of one element, an array
  keeps its elements in their order.
\<close>

fun flatten :: "nd \<Rightarrow> fl list" where
  "flatten (Scalar n) = [val n]"
| "flatten (Arr vs) = vs"

text \<open>
  The function \<^verbatim>\<open>integrand(w, x, a, s, mu, method=method)\<close> nested in
  \<^verbatim>\<open>hk\<close>. The analytic form is
  \<^verbatim>\<open>x*w*jv(0, w*a)*jv(0, w*x)*(1. +w**2*s**2/(2.*mu))**-mu\<close>, the compound one
  \<^verbatim>\<open>rice({'a':a,'s':s*np.sqrt(w/mu)}, x) * gamma({'mu':mu}, w)\<close>; for any other
  method the function ends without a \<^verbatim>\<open>return\<close>.
\<close>

definition integrand :: "env \<Rightarrow> num \<Rightarrow> num \<Rightarrow> num \<Rightarrow> num \<Rightarrow> num \<Rightarrow> string \<Rightarrow> error + nd option" where
  "integrand E w x a s mu method =
     (if method = ''analytic'' then
        let t = n_mul E (n_mul E (n_mul E x w) (n_jv E (PyFloat (Fin 0)) (n_mul E w a)))
                  (n_jv E (PyFloat (Fin 0)) (n_mul E w x))
        in bindE (n_pow E w (PyFloat (Fin 2))) (\<lambda>w2.
           bindE (n_pow E s (PyFloat (Fin 2))) (\<lambda>s2.
           bindE (n_truediv E (n_mul E w2 s2) (n_mul E (PyFloat (Fin 2)) mu)) (\<lambda>q.
           bindE (n_pow E (n_add E (PyFloat (Fin 1)) q) (n_neg mu)) (\<lambda>p.
           Inr (Some (Scalar (n_mul E t p)))))))
      else if method = ''compound'' then
        bindE (n_truediv E w mu) (\<lambda>q.
        bindE (rice E [''a'' \<mapsto> Num a, ''s'' \<mapsto> Num (n_mul E s (n_sqrt E q))] (Scalar x) None None) (\<lambda>r.
        bindE (gamma E [''mu'' \<mapsto> Num mu] (Scalar w) None None) (\<lambda>g.
        bindE (v_mul E r g) (\<lambda>p. Inr (Some p)))))
      else Inr None)"

text \<open>
  \<^verbatim>\<open>def hk(params, x, data=None, eps=None, method = 'compound', verbose=False)\<close>.
  The model is
  \<^verbatim>\<open>[integrate.quad(integrand, 0., np.inf, args=(i, a, s, mu, method))[0] for i in x]\<close>;
  the elements of the flattened array are \<^verbatim>\<open>numpy.float64\<close>. The value the function
  returns does not depend on \<^verbatim>\<open>verbose\<close>; what it prints is \<open>hk_printed\<close>.
\<close>

definition hk :: "env \<Rightarrow> params \<Rightarrow> nd \<Rightarrow> nd option \<Rightarrow> nd option \<Rightarrow> string \<Rightarrow> bool \<Rightarrow> error + nd" where
  "hk E params x data eps method verbose =
     bindE (getitem params ''a'') (\<lambda>a.
     bindE (getitem params ''s'') (\<lambda>s.
     bindE (getitem params ''mu'') (\<lambda>mu.
     let a = unwrap a; s = unwrap s; mu = unwrap mu;
         x = flatten x
     in bindE (mapE (\<lambda>i. bindE (run_quad (quad E (Fin 0) PInf)
                                 (\<lambda>w. integrand E w (NpFloat i) a s mu method))
                              (\<lambda>r. Inr (fst r))) x) (\<lambda>model.
        let model = Arr model
        in case data of None \<Rightarrow> Inr model
           | Some d \<Rightarrow>
               (case eps of None \<Rightarrow> v_sub E model d
                | Some e \<Rightarrow> bindE (v_sub E model d) (\<lambda>r. v_truediv E r e))))))"

definition hk_printed :: "params \<Rightarrow> bool \<Rightarrow> error + (num \<times> num \<times> num) list" where
  "hk_printed params verbose =
     bindE (getitem params ''a'') (\<lambda>a.
     bindE (getitem params ''s'') (\<lambda>s.
     bindE (getitem params ''mu'') (\<lambda>mu.
     Inr (if verbose then [(unwrap a, unwrap s, unwrap mu)] else []))))"

text \<open>The call with the default arguments \<^verbatim>\<open>method = 'compound', verbose=False\<close>.\<close>

definition hk_default :: "env \<Rightarrow> params \<Rightarrow> nd \<Rightarrow> nd option \<Rightarrow> nd option \<Rightarrow> error + nd" where
  "hk_default E params x data eps = hk E params x data eps ''compound'' False"

section \<open>The specification's side\<close>

text \<open>
  The output selection of the common contract: the model without data, the residual
  with data, the residual over \<open>eps\<close> with both.
\<close>

definition select_output :: "env \<Rightarrow> nd \<Rightarrow> nd option \<Rightarrow> nd option \<Rightarrow> error + nd" where
  "select_output E model data eps =
     (case data of None \<Rightarrow> Inr model
      | Some d \<Rightarrow>
          (case eps of None \<Rightarrow> v_sub E model d
           | Some e \<Rightarrow> bindE (v_sub E model d) (\<lambda>r. v_truediv E r e)))"

text \<open>
  The underlying density formulas, before any replacement of values: the gamma density
  with shape \<open>mu\<close> and scale one, the Rayleigh density with scale \<open>s\<close>, the Rice density
  with shape \<open>a/s\<close> and scale \<open>s\<close>, and the closed form of the K density.
\<close>

definition gamma_density :: "env \<Rightarrow> params \<Rightarrow> nd \<Rightarrow> error + nd" where
  "gamma_density E params x =
     bindE (getitem params ''mu'') (\<lambda>mu.
     Inr (ufunc1 (\<lambda>v. stats_gamma_pdf E v (val (unwrap mu)) (Fin 1)) x))"

definition rayleigh_density :: "env \<Rightarrow> params \<Rightarrow> nd \<Rightarrow> error + nd" where
  "rayleigh_density E params x =
     bindE (getitem params ''s'') (\<lambda>s.
     bindE (as_number E s) (\<lambda>s.
     Inr (ufunc1 (\<lambda>v. stats_rayleigh_pdf E v (val s)) x)))"

definition rice_density :: "env \<Rightarrow> params \<Rightarrow> nd \<Rightarrow> error + nd" where
  "rice_density E params x =
     bindE (getitem params ''a'') (\<lambda>a.
     bindE (getitem params ''s'') (\<lambda>s.
     bindE (as_number E a) (\<lambda>a.
     bindE (as_number E s) (\<lambda>s.
     bindE (n_truediv E a s) (\<lambda>b.
     Inr (ufunc1 (\<lambda>v. stats_rice_pdf E v (val b) (val s)) x))))))"

definition k_density :: "env \<Rightarrow> params \<Rightarrow> nd \<Rightarrow> error + nd" where
  "k_density E params x =
     bindE (getitem params ''s'') (\<lambda>s.
     bindE (getitem params ''mu'') (\<lambda>mu.
     bindE (as_number E mu) (\<lambda>mu.
     bindE (as_number E s) (\<lambda>s.
     bindE (n_truediv E (n_sqrt E (n_mul E (PyFloat (Fin 2)) mu)) s) (\<lambda>b.
     bindE (v_truediv E x (lit 2)) (\<lambda>h.
     bindE (v_pow E h (Scalar mu)) (\<lambda>p.
     bindE (v_mul E (lit 2) p) (\<lambda>m1.
     bindE (n_pow E b (n_add E mu (PyFloat (Fin 1)))) (\<lambda>p2.
     bindE (v_mul E m1 (Scalar p2)) (\<lambda>m2.
     bindE (py_math_gamma E mu) (\<lambda>g.
     bindE (v_truediv E m2 (Scalar g)) (\<lambda>m3.
     bindE (v_mul E (Scalar b) x) (\<lambda>z.
     bindE (ufunc2 (kv E) (Scalar (n_sub E mu (PyFloat (Fin 1)))) z) (\<lambda>kk.
     v_mul E m3 kk))))))))))))))"

text \<open>
  The closed form of the K density at one point \<open>v\<close>, in float64 arithmetic:
  \<open>2 (v/2)\<^sup>\<mu> b\<^sup>\<mu>\<^sup>+\<^sup>1 / \<Gamma>(\<mu>) K\<^bsub>\<mu>-1\<^esub>(b v)\<close> with \<open>b = \<surd>(2\<mu>) / s\<close>, where \<open>g\<close> is the
  value of \<open>\<Gamma>(\<mu>)\<close> and \<open>p\<close> the value of \<open>(v/2)\<^sup>\<mu>\<close>.
\<close>

definition k_term :: "env \<Rightarrow> fl \<Rightarrow> fl \<Rightarrow> fl \<Rightarrow> fl \<Rightarrow> fl \<Rightarrow> fl" where
  "k_term E s mu g v p =
     (let b = fdiv E (fsqrt E (fmul E (Fin 2) mu)) s
      in fmul E (fdiv E (fmul E (fmul E (Fin 2) p) (np_power E b (fadd E mu (Fin 1)))) g)
           (kv E (fsub E mu (Fin 1)) (fmul E b v)))"

definition k_formula :: "env \<Rightarrow> fl \<Rightarrow> fl \<Rightarrow> fl \<Rightarrow> fl \<Rightarrow> fl" where
  "k_formula E s mu g v = k_term E s mu g v (np_power E (fdiv E v (Fin 2)) mu)"

text \<open>
  The estimate of a quadrature for an integrand on float64 values, the error estimate
  dropped.
\<close>

primrec quad_spec :: "quadproc \<Rightarrow> (fl \<Rightarrow> error + fl) \<Rightarrow> error + fl" where
  "quad_spec (Done r err) g = Inr r"
| "quad_spec (Ask w h) g = bindE (g w) (\<lambda>v. quad_spec (h v) g)"

text \<open>
  The two integrands of the Homodyne-K density at the point \<open>xi\<close>, as functions of
  \<open>w\<close>, for parameters that are Python floats:
  \<open>xi w J\<^sub>0(w a) J\<^sub>0(w xi) (1 + w\<^sup>2 s\<^sup>2 / (2\<mu>))\<^bsup>-\<mu>\<^esup>\<close>, and the Rice evaluator at \<open>xi\<close>
  with scale \<open>s \<surd>(w/\<mu>)\<close> times the gamma evaluator at \<open>w\<close>, both called without
  data.
\<close>

definition analytic_spec :: "env \<Rightarrow> fl \<Rightarrow> fl \<Rightarrow> fl \<Rightarrow> fl \<Rightarrow> fl \<Rightarrow> error + fl" where
  "analytic_spec E xi a s mu w =
     bindE (float_pow E w (Fin 2)) (\<lambda>w2.
     bindE (float_pow E s (Fin 2)) (\<lambda>s2.
     bindE (py_truediv E (fmul E w2 s2) (fmul E (Fin 2) mu)) (\<lambda>q.
     bindE (float_pow E (fadd E (Fin 1) q) (fneg mu)) (\<lambda>p.
     Inr (fmul E (fmul E (fmul E (fmul E xi w) (jv E (Fin 0) (fmul E w a)))
                    (jv E (Fin 0) (fmul E w xi))) p)))))"

definition compound_spec :: "env \<Rightarrow> fl \<Rightarrow> fl \<Rightarrow> fl \<Rightarrow> fl \<Rightarrow> fl \<Rightarrow> error + fl" where
  "compound_spec E xi a s mu w =
     bindE (py_truediv E w mu) (\<lambda>q.
     bindE (rice E [''a'' \<mapsto> Num (PyFloat a), ''s'' \<mapsto> Num (NpFloat (fmul E s (fsqrt E q)))]
              (Scalar (NpFloat xi)) None None) (\<lambda>r.
     bindE (gamma E [''mu'' \<mapsto> Num (PyFloat mu)] (Scalar (PyFloat w)) None None) (\<lambda>g.
     bindE (v_mul E r g) (\<lambda>p. to_double (Some p)))))"

text \<open>Properties of a value and of every element of an input or a model.\<close>

fun is_fin :: "fl \<Rightarrow> bool" where
  "is_fin (Fin r) = True"
| "is_fin PInf = False"
| "is_fin NInf = False"
| "is_fin NaN = False"







section \<open>A reference environment\<close>

text \<open>
  An instance of the environment, to run the program at concrete inputs. Its arithmetic
  is exact on finite values and follows IEEE 754 on the special ones: a result beyond
  the largest float64 overflows to an infinity, an undefined one is not-a-number.
  Rounding and underflow are left out, so the instance is only used at inputs whose
  intermediate values are far from both. The library functions are given by their
  closed forms where one exists in elementary functions and convergent series; this is
  said at each one.
\<close>

definition ovf :: "real \<Rightarrow> fl" where
  "ovf r = (if DBL_MAX < r then PInf else if r < - DBL_MAX then NInf else Fin r)"

fun ref_add :: "fl \<Rightarrow> fl \<Rightarrow> fl" where
  "ref_add NaN y = NaN"
| "ref_add x NaN = NaN"
| "ref_add (Fin a) (Fin b) = ovf (a + b)"
| "ref_add PInf NInf = NaN"
| "ref_add NInf PInf = NaN"
| "ref_add PInf y = PInf"
| "ref_add x PInf = PInf"
| "ref_add NInf y = NInf"
| "ref_add x NInf = NInf"

definition ref_sub :: "fl \<Rightarrow> fl \<Rightarrow> fl" where
  "ref_sub x y = ref_add x (fneg y)"

fun ref_mul :: "fl \<Rightarrow> fl \<Rightarrow> fl" where
  "ref_mul NaN y = NaN"
| "ref_mul x NaN = NaN"
| "ref_mul (Fin a) (Fin b) = ovf (a * b)"
| "ref_mul (Fin a) PInf = (if a = 0 then NaN else if 0 < a then PInf else NInf)"
| "ref_mul (Fin a) NInf = (if a = 0 then NaN else if 0 < a then NInf else PInf)"
| "ref_mul PInf (Fin b) = (if b = 0 then NaN else if 0 < b then PInf else NInf)"
| "ref_mul NInf (Fin b) = (if b = 0 then NaN else if 0 < b then NInf else PInf)"
| "ref_mul PInf PInf = PInf"
| "ref_mul PInf NInf = NInf"
| "ref_mul NInf PInf = NInf"
| "ref_mul NInf NInf = PInf"

fun ref_div :: "fl \<Rightarrow> fl \<Rightarrow> fl" where
  "ref_div NaN y = NaN"
| "ref_div x NaN = NaN"
| "ref_div (Fin a) (Fin b) =
     (if b = 0 then (if a = 0 then NaN else if 0 < a then PInf else NInf) else ovf (a / b))"
| "ref_div (Fin a) PInf = Fin 0"
| "ref_div (Fin a) NInf = Fin 0"
| "ref_div PInf (Fin b) = (if 0 \<le> b then PInf else NInf)"
| "ref_div NInf (Fin b) = (if 0 \<le> b then NInf else PInf)"
| "ref_div PInf PInf = NaN"
| "ref_div PInf NInf = NaN"
| "ref_div NInf PInf = NaN"
| "ref_div NInf NInf = NaN"

fun ref_sqrt :: "fl \<Rightarrow> fl" where
  "ref_sqrt (Fin r) = (if r < 0 then NaN else Fin (sqrt r))"
| "ref_sqrt PInf = PInf"
| "ref_sqrt NInf = NaN"
| "ref_sqrt NaN = NaN"

text \<open>
  The power function of C, which numpy uses: anything to the power zero is one, one to
  any power is one, a negative base needs an integral exponent.
\<close>

fun pow_cases :: "fl \<Rightarrow> fl \<Rightarrow> fl" where
  "pow_cases NaN y = NaN"
| "pow_cases x NaN = NaN"
| "pow_cases (Fin a) (Fin b) =
     (if 0 < a then ovf (a powr b)
      else if a = 0 then (if 0 < b then Fin 0 else PInf)
      else if b \<in> \<int> then ovf ((if even \<lfloor>b\<rfloor> then 1 else - 1) * ((- a) powr b))
      else NaN)"
| "pow_cases (Fin a) PInf = (if \<bar>a\<bar> < 1 then Fin 0 else if \<bar>a\<bar> = 1 then Fin 1 else PInf)"
| "pow_cases (Fin a) NInf = (if \<bar>a\<bar> < 1 then PInf else if \<bar>a\<bar> = 1 then Fin 1 else Fin 0)"
| "pow_cases PInf (Fin b) = (if 0 < b then PInf else Fin 0)"
| "pow_cases NInf (Fin b) =
     (if 0 < b then (if b \<in> \<int> \<and> odd \<lfloor>b\<rfloor> then NInf else PInf) else Fin 0)"
| "pow_cases PInf PInf = PInf"
| "pow_cases PInf NInf = Fin 0"
| "pow_cases NInf PInf = PInf"
| "pow_cases NInf NInf = Fin 0"

definition ref_power :: "fl \<Rightarrow> fl \<Rightarrow> fl" where
  "ref_power x y = (if y = Fin 0 \<or> x = Fin 1 then Fin 1 else pow_cases x y)"

text \<open>
  The power of two Python floats: zero to a negative power, a negative number to a
  fractional power (in Python 2, for which the program was written) and an overflow
  raise.
\<close>

definition ref_float_pow :: "fl \<Rightarrow> fl \<Rightarrow> error + fl" where
  "ref_float_pow x y =
     (case (x, y) of
        (Fin a, Fin b) \<Rightarrow>
          if a = 0 \<and> b < 0 then Inl ZeroDivisionError
          else if a < 0 \<and> b \<notin> \<int> then Inl ValueError
          else if is_fin (ref_power x y) then Inr (ref_power x y)
          else Inl OverflowError
      | _ \<Rightarrow> Inr (ref_power x y))"

text \<open>
  The gamma function: factorials at the positive integers, \<open>\<surd>\<pi>\<close> at one half,
  Stirling's approximation at the other positive arguments and the reflection formula
  at the negative ones. \<^verbatim>\<open>math.gamma\<close> raises \<^verbatim>\<open>ValueError\<close> at the poles and
  \<^verbatim>\<open>OverflowError\<close> once the value exceeds the largest float64: the largest float64
  at which it returns is \<open>6038495938344519 / 2\<^bsup>45\<^esup>\<close>, about \<open>171.6243769563027\<close>, and
  it raises at every larger one.
\<close>

definition Gamma_pos :: "real \<Rightarrow> real" where
  "Gamma_pos r =
     (if r \<in> \<nat> then fact (nat \<lfloor>r\<rfloor> - 1)
      else if r = 1 / 2 then sqrt pi
      else sqrt (2 * pi / r) * (r / exp 1) powr r)"

definition Gamma_ref :: "real \<Rightarrow> real" where
  "Gamma_ref r = (if 0 < r then Gamma_pos r else pi / (sin (pi * r) * Gamma_pos (1 - r)))"

fun ref_math_gamma :: "fl \<Rightarrow> error + fl" where
  "ref_math_gamma (Fin r) =
     (if r \<in> \<int> \<and> r \<le> 0 then Inl ValueError
      else if 6038495938344519 / 2 ^ 45 < r then Inl OverflowError
      else Inr (Fin (Gamma_ref r)))"
| "ref_math_gamma PInf = Inr PInf"
| "ref_math_gamma NInf = Inl ValueError"
| "ref_math_gamma NaN = Inr NaN"

text \<open>
  The Bessel functions \<open>J\<^sub>0\<close> and \<open>I\<^sub>0\<close> by their power series. The program only calls
  \<^verbatim>\<open>jv\<close> with order zero. \<open>K\<^sub>\<nu>(z)\<close> is \<open>\<surd>(\<pi>/(2z)) e\<^sup>-\<^sup>z\<close>, which is its value for the
  orders one half and minus one half and its leading term for large \<open>z\<close> otherwise.
\<close>

definition bessel_j0 :: "real \<Rightarrow> real" where
  "bessel_j0 z = (\<Sum>n. (- 1) ^ n * (z\<^sup>2 / 4) ^ n / (fact n)\<^sup>2)"

definition bessel_i0 :: "real \<Rightarrow> real" where
  "bessel_i0 z = (\<Sum>n. (z\<^sup>2 / 4) ^ n / (fact n)\<^sup>2)"

definition ref_jv :: "fl \<Rightarrow> fl \<Rightarrow> fl" where
  "ref_jv nu z =
     (if nu = Fin 0
      then (case z of Fin r \<Rightarrow> Fin (bessel_j0 r) | NaN \<Rightarrow> NaN | PInf \<Rightarrow> Fin 0 | NInf \<Rightarrow> Fin 0)
      else NaN)"

definition ref_kv :: "fl \<Rightarrow> fl \<Rightarrow> fl" where
  "ref_kv nu z =
     (if is_fin nu
      then (case z of
              Fin r \<Rightarrow> if r < 0 then NaN else if r = 0 then PInf
                        else Fin (sqrt (pi / (2 * r)) * exp (- r))
            | PInf \<Rightarrow> Fin 0 | NInf \<Rightarrow> NaN | NaN \<Rightarrow> NaN)
      else NaN)"

text \<open>
  The densities of \<^verbatim>\<open>scipy.stats\<close> at a point, for a shape and a scale: not-a-number
  for parameters that are not valid, zero outside the support, and the density of the
  standard distribution at \<open>y = x / scale\<close>, divided by the scale, inside.
\<close>

definition std_pdf :: "(real \<Rightarrow> fl) \<Rightarrow> bool \<Rightarrow> fl \<Rightarrow> fl \<Rightarrow> fl" where
  "std_pdf f shape_ok x sc =
     (case sc of
        Fin c \<Rightarrow>
          if shape_ok \<and> 0 < c
          then (case x of
                  Fin x' \<Rightarrow> if x' / c < 0 then Fin 0 else ref_div (f (x' / c)) (Fin c)
                | PInf \<Rightarrow> Fin 0 | NInf \<Rightarrow> Fin 0 | NaN \<Rightarrow> NaN)
          else NaN
      | _ \<Rightarrow> NaN)"

definition ref_gamma_pdf :: "fl \<Rightarrow> fl \<Rightarrow> fl \<Rightarrow> fl" where
  "ref_gamma_pdf x a sc =
     (case a of
        Fin a' \<Rightarrow>
          std_pdf (\<lambda>y. if y = 0 then (if a' < 1 then PInf else if a' = 1 then Fin 1 else Fin 0)
                       else Fin (y powr (a' - 1) * exp (- y) / Gamma_ref a'))
            (0 < a') x sc
      | _ \<Rightarrow> NaN)"

definition ref_rayleigh_pdf :: "fl \<Rightarrow> fl \<Rightarrow> fl" where
  "ref_rayleigh_pdf x sc = std_pdf (\<lambda>y. Fin (y * exp (- y\<^sup>2 / 2))) True x sc"

definition ref_rice_pdf :: "fl \<Rightarrow> fl \<Rightarrow> fl \<Rightarrow> fl" where
  "ref_rice_pdf x b sc =
     (case b of
        Fin b' \<Rightarrow> std_pdf (\<lambda>y. Fin (y * exp (- (y\<^sup>2 + b'\<^sup>2) / 2) * bessel_i0 (y * b'))) (0 \<le> b') x sc
      | _ \<Rightarrow> NaN)"

text \<open>
  A quadrature with two fixed nodes in place of the adaptive rule, and a box that is
  nothing but its field: used as a number it raises.
\<close>

definition ref_quad :: "fl \<Rightarrow> fl \<Rightarrow> quadproc" where
  "ref_quad a b = Ask (Fin 1) (\<lambda>v1. Ask (Fin 4) (\<lambda>v2. Done (ref_add v1 v2) (Fin 0)))"

definition E_ref :: env where
  "E_ref = \<lparr>fadd = ref_add, fsub = ref_sub, fmul = ref_mul, fdiv = ref_div, fsqrt = ref_sqrt,
            np_power = ref_power, float_pow = ref_float_pow, math_gamma = ref_math_gamma,
            jv = ref_jv, kv = ref_kv, stats_gamma_pdf = ref_gamma_pdf,
            stats_rayleigh_pdf = ref_rayleigh_pdf, stats_rice_pdf = ref_rice_pdf,
            quad = ref_quad, box_number = (\<lambda>v. Inl TypeError)\<rparr>"

section \<open>Basic facts\<close>

lemma bindE_assoc: "bindE (bindE m f) g = bindE m (\<lambda>v. bindE (f v) g)"
  by (cases m) simp_all

lemma bindE_Arr: "(bindE m (\<lambda>ys. Inr (Arr ys)) = Inr r) = (\<exists>ys. r = Arr ys \<and> m = Inr ys)"
  by (cases m) auto

text \<open>A comprehension returns a list exactly if its body returns at every element.\<close>

lemma mapE_Inr_iff: "mapE f xs = Inr ys \<longleftrightarrow> list_all2 (\<lambda>x y. f x = Inr y) xs ys"
proof (induction xs arbitrary: ys)
  case Nil
  show ?case by auto
next
  case (Cons x xs)
  show ?case
  proof (cases "f x")
    case (Inl e)
    then show ?thesis by (auto simp: list_all2_Cons1)
  next
    case (Inr y)
    show ?thesis
    proof (cases "mapE f xs")
      case (Inl e)
      with Inr Cons.IH show ?thesis by (auto simp: list_all2_Cons1)
    next
      case r: (Inr zs)
      with Inr Cons.IH show ?thesis by (auto simp: list_all2_Cons1)
    qed
  qed
qed

lemma mapE_nth:
  "mapE f xs = Inr ys \<longleftrightarrow> length ys = length xs \<and> (\<forall>i<length ys. f (xs ! i) = Inr (ys ! i))"
  by (auto simp: mapE_Inr_iff list_all2_conv_all_nth)

lemmas op_defs = n_add_def n_sub_def n_mul_def n_truediv_def n_pow_def n_sqrt_def n_jv_def
  v_sub_def v_mul_def v_truediv_def v_pow_def py_truediv_def py_math_gamma_def lit_def
  nan_to_num_def getitem_def

lemmas ref_funs = E_ref_def ref_sub_def ref_power_def ref_float_pow_def
  ref_jv_def ref_kv_def std_pdf_def ref_gamma_pdf_def ref_rayleigh_pdf_def ref_rice_pdf_def
  ref_quad_def Gamma_ref_def Gamma_pos_def

lemmas ref_defs = ref_funs ovf_def DBL_MAX_def


lemma ovf_Fin: "- DBL_MAX \<le> r \<Longrightarrow> r \<le> DBL_MAX \<Longrightarrow> ovf r = Fin r"
  by (simp add: ovf_def)

lemma ovf_0: "ovf 0 = Fin 0"
  by (simp add: ovf_def DBL_MAX_def)

lemma ovf_exp_neg: "0 \<le> t \<Longrightarrow> ovf (exp (- t)) = Fin (exp (- t))"
proof (rule ovf_Fin)
  assume t: "0 \<le> t"
  have "- DBL_MAX \<le> 0" by (simp add: DBL_MAX_def)
  also have "0 \<le> exp (- t)" by simp
  finally show "- DBL_MAX \<le> exp (- t)" .
  have "exp (- t) \<le> 1" using t by simp
  also have "1 \<le> DBL_MAX" by (simp add: DBL_MAX_def)
  finally show "exp (- t) \<le> DBL_MAX" .
qed

lemma ref_mul_NaN: "ref_mul v NaN = NaN"
  by (cases v) simp_all

lemma ref_add_NaN: "ref_add v NaN = NaN"
  by (cases v) simp_all

lemma quad_E_ref:
  "quad E_ref lo hi = Ask (Fin 1) (\<lambda>v1. Ask (Fin 4) (\<lambda>v2. Done (ref_add v1 v2) (Fin 0)))"
  by (simp add: E_ref_def ref_quad_def)

text \<open>The series of \<open>I\<^sub>0\<close> at zero has one term.\<close>

lemma bessel_i0_zero: "bessel_i0 0 = 1"
proof -
  have "(\<lambda>n. (0\<^sup>2 / 4 :: real) ^ n / (fact n)\<^sup>2) = (\<lambda>n. if n = 0 then 1 else 0)"
    by (auto simp: fun_eq_iff)
  moreover have "(\<lambda>n. if n = 0 then 1 else 0 :: real) sums 1"
    using sums_single [of 0 "\<lambda>n. 1 :: real"] by simp
  ultimately show ?thesis by (simp add: bessel_i0_def sums_unique [symmetric])
qed

lemma map2_map_map: "map2 f (map g xs) (map h xs) = map (\<lambda>x. f (g x) (h x)) xs"
  by (induction xs) simp_all




section \<open>Output selection\<close>

text \<open>
  C3. For each of the five evaluators, the call with data \<open>d\<close> is the model of the
  call without data minus \<open>d\<close>, and the call with data \<open>d\<close> and uncertainties \<open>e\<close>
  is that residual divided by \<open>e\<close>, element by element (and an exception of the
  model is the exception of the call).
\<close>

theorem residual_of_model:
  "gamma E params x (Some d) None = bindE (gamma E params x None None) (\<lambda>m. v_sub E m d)
   \<and> gamma E params x (Some d) (Some e) =
       bindE (gamma E params x None None) (\<lambda>m. bindE (v_sub E m d) (\<lambda>r. v_truediv E r e))
   \<and> rayleigh E params x (Some d) None =
       bindE (rayleigh E params x None None) (\<lambda>m. v_sub E m d)
   \<and> rayleigh E params x (Some d) (Some e) =
       bindE (rayleigh E params x None None) (\<lambda>m. bindE (v_sub E m d) (\<lambda>r. v_truediv E r e))
   \<and> rice E params x (Some d) None = bindE (rice E params x None None) (\<lambda>m. v_sub E m d)
   \<and> rice E params x (Some d) (Some e) =
       bindE (rice E params x None None) (\<lambda>m. bindE (v_sub E m d) (\<lambda>r. v_truediv E r e))
   \<and> k E params x (Some d) None = bindE (k E params x None None) (\<lambda>m. v_sub E m d)
   \<and> k E params x (Some d) (Some e) =
       bindE (k E params x None None) (\<lambda>m. bindE (v_sub E m d) (\<lambda>r. v_truediv E r e))
   \<and> hk E params x (Some d) None method verbose =
       bindE (hk E params x None None method verbose) (\<lambda>m. v_sub E m d)
   \<and> hk E params x (Some d) (Some e) method verbose =
       bindE (hk E params x None None method verbose)
         (\<lambda>m. bindE (v_sub E m d) (\<lambda>r. v_truediv E r e))"
  by (simp add: gamma_def rayleigh_def rice_def k_def hk_def Let_def bindE_assoc)

text \<open>
  C9. For each of the five evaluators, without data the argument \<open>eps\<close> is not read:
  the call returns the model, whatever \<open>eps\<close> is.
\<close>

theorem eps_ignored_without_data:
  "gamma E params x None eps = gamma E params x None None
   \<and> rayleigh E params x None eps = rayleigh E params x None None
   \<and> rice E params x None eps = rice E params x None None
   \<and> k E params x None eps = k E params x None None
   \<and> hk E params x None eps method verbose = hk E params x None None method verbose"
  by (simp add: gamma_def rayleigh_def rice_def k_def hk_def)

section \<open>The Homodyne-K model\<close>

text \<open>
  A run of the quadrature on the program's integrand is a run on a function of float64
  values, as soon as that function gives what the quadrature reads of the integrand.
\<close>

lemma run_quad_refines:
  assumes "\<And>w. bindE (f (PyFloat w)) to_double = g w"
  shows "bindE (run_quad q f) (\<lambda>r. Inr (fst r)) = quad_spec q g"
proof (induction q)
  case (Done r err)
  show ?case by simp
next
  case (Ask w h)
  have "bindE (run_quad (Ask w h) f) (\<lambda>r. Inr (fst r))
      = bindE (bindE (f (PyFloat w)) to_double) (\<lambda>v. bindE (run_quad (h v) f) (\<lambda>r. Inr (fst r)))"
    by (simp add: bindE_assoc)
  also have "\<dots> = bindE (g w) (\<lambda>v. quad_spec (h v) g)"
    using Ask.IH by (simp add: assms)
  finally show ?case by simp
qed

lemma integrand_analytic:
  "bindE (integrand E (PyFloat w) (NpFloat xi) (PyFloat a) (PyFloat s) (PyFloat mu) ''analytic'') to_double
   = analytic_spec E xi a s mu w"
  by (simp add: integrand_def analytic_spec_def n_pow_def n_truediv_def n_mul_def n_add_def n_jv_def
      bindE_assoc Let_def)

lemma integrand_compound:
  "bindE (integrand E (PyFloat w) (NpFloat xi) (PyFloat a) (PyFloat s) (PyFloat mu) ''compound'') to_double
   = compound_spec E xi a s mu w"
  by (simp add: integrand_def compound_spec_def n_truediv_def n_mul_def n_sqrt_def bindE_assoc)

lemma hk_model:
  assumes "getitem params ''a'' = Inr pa" "getitem params ''s'' = Inr ps" "getitem params ''mu'' = Inr pm"
  shows "hk E params x None None method verbose =
     bindE (mapE (\<lambda>i. bindE (run_quad (quad E (Fin 0) PInf)
               (\<lambda>w. integrand E w (NpFloat i) (unwrap pa) (unwrap ps) (unwrap pm) method)) (\<lambda>r. Inr (fst r)))
            (flatten x)) (\<lambda>ys. Inr (Arr ys))"
  using assms by (simp add: hk_def)

text \<open>
  C1. With the three parameters present and Python floats (plain or in a box), the call
  of \<open>hk\<close> without data returns \<open>r\<close> exactly if \<open>r\<close> is an array as long as the
  flattened input whose \<open>i\<close>-th element is the estimate of the quadrature over
  \<open>[0, \<infinity>)\<close> of the integrand of the method at the \<open>i\<close>-th input point, the error estimate
  dropped: the analytic integrand for \<^verbatim>\<open>'analytic'\<close>, the product of the Rice and the
  gamma evaluator, called without data, for \<^verbatim>\<open>'compound'\<close>, which is the default.
\<close>

theorem hk_model_is_quadrature_estimate:
  assumes "getitem params ''a'' = Inr pa" "getitem params ''s'' = Inr ps" "getitem params ''mu'' = Inr pm"
      and "unwrap pa = PyFloat a" "unwrap ps = PyFloat s" "unwrap pm = PyFloat mu"
  shows "(hk E params x None None ''analytic'' verbose = Inr r \<longleftrightarrow>
           (\<exists>ys. r = Arr ys \<and> length ys = length (flatten x) \<and>
              (\<forall>i<length ys. quad_spec (quad E (Fin 0) PInf) (analytic_spec E (flatten x ! i) a s mu)
                                = Inr (ys ! i))))
       \<and> (hk E params x None None ''compound'' verbose = Inr r \<longleftrightarrow>
           (\<exists>ys. r = Arr ys \<and> length ys = length (flatten x) \<and>
              (\<forall>i<length ys. quad_spec (quad E (Fin 0) PInf) (compound_spec E (flatten x ! i) a s mu)
                                = Inr (ys ! i))))
       \<and> hk_default E params x None None = hk E params x None None ''compound'' False"
proof -
  have A: "\<And>i. bindE (run_quad (quad E (Fin 0) PInf)
               (\<lambda>w. integrand E w (NpFloat i) (PyFloat a) (PyFloat s) (PyFloat mu) ''analytic'')) (\<lambda>r. Inr (fst r))
         = quad_spec (quad E (Fin 0) PInf) (analytic_spec E i a s mu)"
    by (rule run_quad_refines) (rule integrand_analytic)
  have C: "\<And>i. bindE (run_quad (quad E (Fin 0) PInf)
               (\<lambda>w. integrand E w (NpFloat i) (PyFloat a) (PyFloat s) (PyFloat mu) ''compound'')) (\<lambda>r. Inr (fst r))
         = quad_spec (quad E (Fin 0) PInf) (compound_spec E i a s mu)"
    by (rule run_quad_refines) (rule integrand_compound)
  have HA: "hk E params x None None ''analytic'' verbose =
      bindE (mapE (\<lambda>i. quad_spec (quad E (Fin 0) PInf) (analytic_spec E i a s mu)) (flatten x)) (\<lambda>ys. Inr (Arr ys))"
    using hk_model[OF assms(1-3)] assms(4-6) by (simp add: A)
  have HC: "hk E params x None None ''compound'' verbose =
      bindE (mapE (\<lambda>i. quad_spec (quad E (Fin 0) PInf) (compound_spec E i a s mu)) (flatten x)) (\<lambda>ys. Inr (Arr ys))"
    using hk_model[OF assms(1-3)] assms(4-6) by (simp add: C)
  show ?thesis
    unfolding HA HC bindE_Arr mapE_nth by (simp add: hk_default_def)
qed

text \<open>
  The integrands at the input point zero and the two nodes of the reference quadrature,
  for \<open>a = s = \<mu> = 1\<close>.
\<close>

lemma analytic_spec_at_nodes:
  "analytic_spec E_ref (Fin 0) (Fin 1) (Fin 1) (Fin 1) (Fin 1) = Inr (Fin 0)"
  "analytic_spec E_ref (Fin 0) (Fin 1) (Fin 1) (Fin 1) (Fin 4) = Inr (Fin 0)"
  by (simp_all add: analytic_spec_def op_defs ref_defs powr_minus)

lemma compound_spec_at_nodes:
  "compound_spec E_ref (Fin 0) (Fin 1) (Fin 1) (Fin 1) (Fin 1) = Inr (Fin 0)"
  "compound_spec E_ref (Fin 0) (Fin 1) (Fin 1) (Fin 1) (Fin 4) = Inr (Fin 0)"
  by (simp_all add: compound_spec_def rice_def gamma_def op_defs ref_defs)

text \<open>
  C1, at an input: in the reference environment, with \<open>s\<close> in a box, the model at the
  input point zero is zero for both methods.
\<close>

theorem hk_model_witness:
  "hk E_ref [''a'' \<mapsto> Num (PyFloat (Fin 1)), ''s'' \<mapsto> Boxed (Fin 1), ''mu'' \<mapsto> Num (PyFloat (Fin 1))]
      (Arr [Fin 0]) None None ''analytic'' False = Inr (Arr [Fin 0])
   \<and> hk_default E_ref [''a'' \<mapsto> Num (PyFloat (Fin 1)), ''s'' \<mapsto> Boxed (Fin 1), ''mu'' \<mapsto> Num (PyFloat (Fin 1))]
      (Arr [Fin 0]) None None = Inr (Arr [Fin 0])"
proof -
  let ?P = "[''a'' \<mapsto> Num (PyFloat (Fin 1)), ''s'' \<mapsto> Boxed (Fin 1), ''mu'' \<mapsto> Num (PyFloat (Fin 1))]"
  have g: "getitem ?P ''a'' = Inr (Num (PyFloat (Fin 1)))" "getitem ?P ''s'' = Inr (Boxed (Fin 1))"
    "getitem ?P ''mu'' = Inr (Num (PyFloat (Fin 1)))"
    by (simp_all add: getitem_def)
  have u: "unwrap (Num (PyFloat (Fin 1))) = PyFloat (Fin 1)" "unwrap (Boxed (Fin 1)) = PyFloat (Fin 1)"
    by simp_all
  have q: "quad E_ref (Fin 0) PInf = Ask (Fin 1) (\<lambda>v1. Ask (Fin 4) (\<lambda>v2. Done (ref_add v1 v2) (Fin 0)))"
    by (simp add: E_ref_def ref_quad_def)
  note T = hk_model_is_quadrature_estimate [OF g(1) g(2) g(3) u(1) u(2) u(1),
      of E_ref "Arr [Fin 0]" False "Arr [Fin 0]"]
  show ?thesis
    using T by (simp add: q analytic_spec_at_nodes compound_spec_at_nodes ovf_def DBL_MAX_def)
qed

text \<open>
  C10, as stated, at an input: with a method that is neither \<^verbatim>\<open>'analytic'\<close> nor
  \<^verbatim>\<open>'compound'\<close> and an empty input array, no quadrature runs and the call returns
  the empty array.
\<close>

theorem unknown_method_empty_input:
  "hk E_ref [''a'' \<mapsto> Num (PyFloat (Fin 1)), ''s'' \<mapsto> Num (PyFloat (Fin 1)), ''mu'' \<mapsto> Num (PyFloat (Fin 1))]
      (Arr []) None None ''exact'' False = Inr (Arr [])"
  by (simp add: hk_def getitem_def)

text \<open>
  C10, amended. With a method that is neither \<^verbatim>\<open>'analytic'\<close> nor \<^verbatim>\<open>'compound'\<close> there
  is no fall-back: the integrand returns \<^verbatim>\<open>None\<close> at every \<open>w\<close>, a quadrature that
  samples it fails at the first sample, and so the call fails for every input that has
  at least one point.
\<close>

theorem unknown_method_returns_nothing:
  assumes "method \<noteq> ''analytic''" "method \<noteq> ''compound''"
  shows "integrand E w xi a s mu method = Inr None
       \<and> run_quad (Ask w0 h) (\<lambda>w. integrand E w xi a s mu method) = Inl QuadpackError
       \<and> (quad E (Fin 0) PInf = Ask w0 h \<and> flatten x \<noteq> [] \<longrightarrow>
            (\<exists>e. hk E params x data eps method verbose = Inl e))"
proof -
  have i: "\<And>w xi a s mu. integrand E w xi a s mu method = Inr None"
    using assms by (simp add: integrand_def)
  have r: "\<And>w0 h xi a s mu. run_quad (Ask w0 h) (\<lambda>w. integrand E w xi a s mu method) = Inl QuadpackError"
    by (simp add: i)
  have h: "\<exists>e. hk E params x data eps method verbose = Inl e"
    if q: "quad E (Fin 0) PInf = Ask w0 h" and x: "flatten x \<noteq> []"
  proof -
    obtain v vs where vs: "flatten x = v # vs" using x by (cases "flatten x") auto
    show ?thesis
      by (cases "getitem params ''a''"; cases "getitem params ''s''"; cases "getitem params ''mu''")
         (simp_all add: hk_def vs q i)
  qed
  show ?thesis using i r h by blast
qed

text \<open>C10, amended, at an input: the scalar input one and the method \<^verbatim>\<open>'exact'\<close>.\<close>

theorem unknown_method_witness:
  "integrand E_ref (PyFloat (Fin 1)) (NpFloat (Fin 1)) (PyFloat (Fin 1)) (PyFloat (Fin 1)) (PyFloat (Fin 1)) ''exact'' = Inr None
   \<and> (\<exists>e. hk E_ref [''a'' \<mapsto> Num (PyFloat (Fin 1)), ''s'' \<mapsto> Num (PyFloat (Fin 1)), ''mu'' \<mapsto> Num (PyFloat (Fin 1))]
            (Scalar (PyFloat (Fin 1))) None None ''exact'' False = Inl e)"
  using unknown_method_returns_nothing [of "''exact''" E_ref "PyFloat (Fin 1)" "NpFloat (Fin 1)"
      "PyFloat (Fin 1)" "PyFloat (Fin 1)" "PyFloat (Fin 1)" "Fin 1"
      "\<lambda>v1. Ask (Fin 4) (\<lambda>v2. Done (ref_add v1 v2) (Fin 0))" "Scalar (PyFloat (Fin 1))"
      "[''a'' \<mapsto> Num (PyFloat (Fin 1)), ''s'' \<mapsto> Num (PyFloat (Fin 1)), ''mu'' \<mapsto> Num (PyFloat (Fin 1))]"
      None None False]
  by (simp add: E_ref_def ref_quad_def)

section \<open>The replacement of values that are not finite\<close>

text \<open>
  C2, as stated, at an input: the gamma density with shape one half is infinite at
  zero, and the model that \<open>gamma\<close> returns there is the largest float64, not zero.
\<close>

theorem infinite_density_not_zeroed:
  "gamma_density E_ref [''mu'' \<mapsto> Num (PyFloat (Fin (1 / 2)))] (Scalar (PyFloat (Fin 0)))
     = Inr (Scalar (NpFloat PInf))
   \<and> gamma E_ref [''mu'' \<mapsto> Num (PyFloat (Fin (1 / 2)))] (Scalar (PyFloat (Fin 0))) None None
     = Inr (Scalar (NpFloat (Fin DBL_MAX)))
   \<and> Fin DBL_MAX \<noteq> Fin 0"
  by (simp add: gamma_def gamma_density_def getitem_def E_ref_def nan_to_num_def ref_gamma_pdf_def
      std_pdf_def DBL_MAX_def)

text \<open>
  C2, amended. In \<open>gamma\<close>, \<open>rayleigh\<close>, \<open>rice\<close> and \<open>k\<close> the output selection works on
  the value of the density formula after \<^verbatim>\<open>np.nan_to_num\<close>, which replaces, element
  by element, not-a-number by zero, plus infinity by the largest float64 and minus
  infinity by its negative, and leaves finite values as they are.
\<close>

theorem nan_policy_of_four:
  "gamma E params x data eps =
     bindE (gamma_density E params x) (\<lambda>raw. select_output E (nan_to_num raw) data eps)
   \<and> rayleigh E params x data eps =
     bindE (rayleigh_density E params x) (\<lambda>raw. select_output E (nan_to_num raw) data eps)
   \<and> rice E params x data eps =
     bindE (rice_density E params x) (\<lambda>raw. select_output E (nan_to_num raw) data eps)
   \<and> k E params x data eps =
     bindE (k_density E params x) (\<lambda>raw. select_output E (nan_to_num raw) data eps)
   \<and> nan_to_num (Arr vs) = Arr (map nan_to_num1 vs)
   \<and> nan_to_num (Scalar n) = Scalar (NpFloat (nan_to_num1 (val n)))
   \<and> nan_to_num1 NaN = Fin 0
   \<and> nan_to_num1 PInf = Fin DBL_MAX
   \<and> nan_to_num1 NInf = Fin (- DBL_MAX)
   \<and> nan_to_num1 (Fin r) = Fin r
   \<and> 0 < DBL_MAX"
  by (simp add: gamma_def rayleigh_def rice_def k_def gamma_density_def rayleigh_density_def
      rice_density_def k_density_def select_output_def nan_to_num_def DBL_MAX_def bindE_assoc Let_def)

section \<open>The K evaluator\<close>

text \<open>
  C5, as stated, at an input: for \<open>s = 2\<^bsup>-400\<^esup>\<close>, \<open>\<mu> = 2\<close> and the array input
  \<open>[2\<^bsup>-400\<^esup>]\<close> the factor \<open>b\<^sup>3 = 2\<^bsup>1203\<^esup>\<close> overflows, the formula yields plus
  infinity, and the model is the largest float64, not zero.
\<close>

theorem k_overflow_not_zeroed:
  "k_formula E_ref (Fin (1 / 2 ^ 400)) (Fin 2) (Fin 1) (Fin (1 / 2 ^ 400)) = PInf
   \<and> k E_ref [''s'' \<mapsto> Num (PyFloat (Fin (1 / 2 ^ 400))), ''mu'' \<mapsto> Num (PyFloat (Fin 2))]
        (Arr [Fin (1 / 2 ^ 400)]) None None = Inr (Arr [Fin DBL_MAX])
   \<and> Fin DBL_MAX \<noteq> Fin 0"
  by (simp add: k_def k_formula_def k_term_def op_defs ref_defs bindE_assoc Let_def power_divide)

text \<open>
  C5, amended. For Python float parameters \<open>s\<close> and \<open>\<mu>\<close>, once \<^verbatim>\<open>math.gamma\<close> has
  returned \<open>\<Gamma>(\<mu>)\<close> (and, for a Python float input, Python's power has returned
  \<open>(x/2)\<^sup>\<mu>\<close>), the model of \<open>k\<close> is the closed form at every element of an array
  input, at a float64 input and at a Python float input, with not-a-number replaced by
  zero, plus infinity by the largest float64 and minus infinity by its negative.
\<close>

theorem k_model_elementwise:
  "k E [''s'' \<mapsto> Num (PyFloat s), ''mu'' \<mapsto> Num (PyFloat mu)] (Arr xs) None None =
     bindE (math_gamma E mu) (\<lambda>g. Inr (Arr (map (\<lambda>v. nan_to_num1 (k_formula E s mu g v)) xs)))
   \<and> k E [''s'' \<mapsto> Num (PyFloat s), ''mu'' \<mapsto> Num (PyFloat mu)] (Scalar (NpFloat v)) None None =
     bindE (math_gamma E mu) (\<lambda>g. Inr (Scalar (NpFloat (nan_to_num1 (k_formula E s mu g v)))))
   \<and> k E [''s'' \<mapsto> Num (PyFloat s), ''mu'' \<mapsto> Num (PyFloat mu)] (Scalar (PyFloat v)) None None =
     bindE (float_pow E (fdiv E v (Fin 2)) mu) (\<lambda>p.
     bindE (math_gamma E mu) (\<lambda>g. Inr (Scalar (NpFloat (nan_to_num1 (k_term E s mu g v p))))))
   \<and> nan_to_num1 NaN = Fin 0
   \<and> nan_to_num1 PInf = Fin DBL_MAX
   \<and> nan_to_num1 NInf = Fin (- DBL_MAX)
   \<and> nan_to_num1 (Fin r) = Fin r
   \<and> 0 < DBL_MAX"
  by (simp add: k_def op_defs k_formula_def k_term_def bindE_assoc Let_def map2_map_map o_def
      DBL_MAX_def)

section \<open>Signs\<close>




























section \<open>Models without data\<close>




section \<open>Rice and Rayleigh\<close>




section \<open>Boxed parameters\<close>

text \<open>
  C6, at an input. Only \<open>gamma\<close> and \<open>hk\<close> test for the field \<^verbatim>\<open>value\<close>. In \<open>rice\<close>,
  \<open>rayleigh\<close> and \<open>k\<close> a box reaches the operator or the library call as it is: with
  boxes that are nothing but their field the three raise, where the plain floats give
  the density.
\<close>

theorem boxed_parameters_reach_the_library:
  "rice E_ref [''a'' \<mapsto> Boxed (Fin 0), ''s'' \<mapsto> Boxed (Fin 1)] (Scalar (PyFloat (Fin 1))) None None
     = Inl TypeError
   \<and> rice E_ref [''a'' \<mapsto> Num (PyFloat (Fin 0)), ''s'' \<mapsto> Num (PyFloat (Fin 1))] (Scalar (PyFloat (Fin 1))) None None
     = Inr (Scalar (NpFloat (Fin (exp (- (1 / 2))))))
   \<and> rayleigh E_ref [''s'' \<mapsto> Boxed (Fin 1)] (Scalar (PyFloat (Fin 1))) None None = Inl TypeError
   \<and> rayleigh E_ref [''s'' \<mapsto> Num (PyFloat (Fin 1))] (Scalar (PyFloat (Fin 1))) None None
     = Inr (Scalar (NpFloat (Fin (exp (- (1 / 2))))))
   \<and> k E_ref [''s'' \<mapsto> Boxed (Fin 1), ''mu'' \<mapsto> Boxed (Fin 2)] (Arr [Fin 0]) None None
     = Inl TypeError
   \<and> k E_ref [''s'' \<mapsto> Num (PyFloat (Fin 1)), ''mu'' \<mapsto> Num (PyFloat (Fin 2))] (Arr [Fin 0]) None None
     = Inr (Arr [Fin 0])"
proof -
  have boxed:
    "rice E_ref [''a'' \<mapsto> Boxed (Fin 0), ''s'' \<mapsto> Boxed (Fin 1)] (Scalar (PyFloat (Fin 1))) None None
       = Inl TypeError"
    "rayleigh E_ref [''s'' \<mapsto> Boxed (Fin 1)] (Scalar (PyFloat (Fin 1))) None None = Inl TypeError"
    "k E_ref [''s'' \<mapsto> Boxed (Fin 1), ''mu'' \<mapsto> Boxed (Fin 2)] (Arr [Fin 0]) None None
       = Inl TypeError"
    by (simp_all add: rice_def rayleigh_def k_def getitem_def E_ref_def)
  have plain:
    "rice E_ref [''a'' \<mapsto> Num (PyFloat (Fin 0)), ''s'' \<mapsto> Num (PyFloat (Fin 1))] (Scalar (PyFloat (Fin 1))) None None
       = Inr (Scalar (NpFloat (Fin (exp (- (1 / 2))))))"
    "rayleigh E_ref [''s'' \<mapsto> Num (PyFloat (Fin 1))] (Scalar (PyFloat (Fin 1))) None None
       = Inr (Scalar (NpFloat (Fin (exp (- (1 / 2))))))"
    using ovf_exp_neg [of "1 / 2"]
    by (simp_all add: rice_def rayleigh_def op_defs ref_funs ovf_0 bessel_i0_zero)
  have kplain: "k E_ref [''s'' \<mapsto> Num (PyFloat (Fin 1)), ''mu'' \<mapsto> Num (PyFloat (Fin 2))] (Arr [Fin 0]) None None
       = Inr (Arr [Fin 0])"
    by (simp add: k_def op_defs ref_defs)
  show ?thesis
    by (intro conjI) (rule boxed plain kplain)+
qed

section \<open>Homodyne-K keeps what the quadrature returns\<close>

text \<open>
  For Python float parameters the compound integrand raises at no sample point unless
  \<open>\<mu>\<close> is zero: the quotient \<open>w/\<mu>\<close> is the only operation between two Python floats,
  and what the two inner evaluators return has been through \<^verbatim>\<open>np.nan_to_num\<close>.
\<close>

lemma compound_integrand_value:
  "integrand E (PyFloat w) (NpFloat x) (PyFloat a) (PyFloat s) (PyFloat mu) ''compound'' =
     (if mu = Fin 0 then Inl ZeroDivisionError
      else Inr (Some (Scalar (NpFloat
        (let s' = fmul E s (fsqrt E (fdiv E w mu))
         in fmul E (nan_to_num1 (stats_rice_pdf E x (fdiv E a s') s'))
              (nan_to_num1 (stats_gamma_pdf E w mu (Fin 1))))))))"
  by (simp add: integrand_def rice_def gamma_def op_defs Let_def)

text \<open>The analytic integrand where every sample, or one of the two, is not-a-number.\<close>

lemma analytic_integrand_nan:
  assumes "w = Fin 1 \<or> w = Fin 4"
  shows "integrand E_ref (PyFloat w) (NpFloat x) (PyFloat (Fin 1)) (PyFloat (Fin 1)) (PyFloat NaN) ''analytic''
         = Inr (Some (Scalar (NpFloat NaN)))"
  using assms by (auto simp: integrand_def op_defs ref_defs ref_mul_NaN Let_def)

lemma analytic_integrand_huge_x_4:
  "integrand E_ref (PyFloat (Fin 4)) (NpFloat (Fin (10 ^ 308))) (PyFloat (Fin 1)) (PyFloat (Fin 1)) (PyFloat (Fin 1)) ''analytic''
         = Inr (Some (Scalar (NpFloat NaN)))"
  by (simp add: integrand_def op_defs ref_defs Let_def powr_minus)

lemma analytic_integrand_huge_x_1:
  "\<exists>v. integrand E_ref (PyFloat (Fin 1)) (NpFloat (Fin (10 ^ 308))) (PyFloat (Fin 1)) (PyFloat (Fin 1)) (PyFloat (Fin 1)) ''analytic''
         = Inr (Some (Scalar (NpFloat v)))"
  by (simp add: integrand_def op_defs ref_defs Let_def powr_minus)

text \<open>
  C4, at an input. With the analytic method and \<open>\<mu>\<close> not-a-number every sample of the
  integrand is not-a-number, and so is the estimate at both input points; with
  \<open>a = s = \<mu> = 1\<close> and the input \<open>10\<^bsup>308\<^esup>\<close> the product \<open>x w\<close> overflows at the sample
  \<open>w = 4\<close> and the estimate is not-a-number again. Nothing raises, every point is
  processed, and \<open>hk\<close> returns the estimates as they are: there is no
  \<^verbatim>\<open>np.nan_to_num\<close> in \<open>hk\<close>.
\<close>

theorem hk_keeps_nan:
  "hk E_ref [''a'' \<mapsto> Num (PyFloat (Fin 1)), ''s'' \<mapsto> Num (PyFloat (Fin 1)), ''mu'' \<mapsto> Num (PyFloat NaN)]
      (Arr [Fin 1, Fin 2]) None None ''analytic'' False = Inr (Arr [NaN, NaN])
   \<and> hk E_ref [''a'' \<mapsto> Num (PyFloat (Fin 1)), ''s'' \<mapsto> Num (PyFloat (Fin 1)), ''mu'' \<mapsto> Num (PyFloat (Fin 1))]
      (Scalar (PyFloat (Fin (10 ^ 308)))) None None ''analytic'' False = Inr (Arr [NaN])"
proof -
  obtain v where v: "integrand E_ref (PyFloat (Fin 1)) (NpFloat (Fin (10 ^ 308))) (PyFloat (Fin 1)) (PyFloat (Fin 1)) (PyFloat (Fin 1)) ''analytic''
         = Inr (Some (Scalar (NpFloat v)))"
    using analytic_integrand_huge_x_1 by blast
  have "hk E_ref [''a'' \<mapsto> Num (PyFloat (Fin 1)), ''s'' \<mapsto> Num (PyFloat (Fin 1)), ''mu'' \<mapsto> Num (PyFloat (Fin 1))]
      (Scalar (PyFloat (Fin (10 ^ 308)))) None None ''analytic'' False = Inr (Arr [NaN])"
    using v analytic_integrand_huge_x_4 by (simp add: hk_def getitem_def quad_E_ref ref_add_NaN)
  then show ?thesis
    by (simp add: hk_def getitem_def quad_E_ref analytic_integrand_nan)
qed

end
